theory Spec2Isabelle
  imports Complex_Main "HOL-Library.AList"
begin

section \<open>Values, responses and exceptions\<close>

text \<open>
  The three route modules (vehicles, \<^verbatim>\<open>server/routes/materials.js\<close>,
  \<^verbatim>\<open>server/routes/users.js\<close>) are Express handlers over Sequelize models.
  JavaScript values that travel through them are JSON values; a number is an exact
  rational here (rounding to the nearest double is not represented). Objects keep the
  insertion order of their keys, so an object is an association list and the
  assignment \<^verbatim>\<open>o.k = v\<close> is \<open>AList.update k v o\<close>.
\<close>

datatype json =
    JNull
  | JBool bool
  | JNum rat
  | JStr string
  | JArr "json list"
  | JObj "(string \<times> json) list"

type_synonym entity = "(string \<times> json) list"

text \<open>
  A handler answers either with \<^verbatim>\<open>res.status(c).json(v)\<close> (status 200 when
  \<^verbatim>\<open>res.json(v)\<close> is called directly) or with \<^verbatim>\<open>res.status(c).send(text)\<close>.
\<close>

datatype response = Json nat json | Send nat string

fun status :: "response \<Rightarrow> nat" where
  "status (Json c _) = c"
| "status (Send c _) = c"

text \<open>
  What a \<^verbatim>\<open>try\<close> block can catch: the ReferenceError of an identifier that is
  bound nowhere, and a failure of the persistence layer.
\<close>

datatype exn = ReferenceError string | StorageError

text \<open>
  \<open>resolve scope x\<close> evaluates the identifier \<open>x\<close> in a scope given by the names it
  binds. \<open>run_steps\<close> runs statements one after the other on a value under
  construction and stops at the first exception.
\<close>

definition resolve :: "string list \<Rightarrow> string \<Rightarrow> exn + unit" where
  "resolve scope x = (if x \<in> set scope then Inr () else Inl (ReferenceError x))"

fun run_steps :: "('a \<Rightarrow> exn + 'a) list \<Rightarrow> 'a \<Rightarrow> exn + 'a" where
  "run_steps [] w = Inr w"
| "run_steps (f # fs) w = (case f w of Inl e \<Rightarrow> Inl e | Inr w' \<Rightarrow> run_steps fs w')"

section \<open>JavaScript built-ins used by the handlers\<close>

text \<open>
  \<^verbatim>\<open>parseInt(s)\<close> without a radix: leading white space is skipped, a sign is read, a
  \<^verbatim>\<open>0x\<close> prefix selects base 16, and the longest run of digits is the value;
  \<open>None\<close> is \<^verbatim>\<open>NaN\<close>. \<^verbatim>\<open>parseInt(undefined)\<close> is \<^verbatim>\<open>NaN\<close>. The value is the
  exact integer; the double that the code computes agrees with it below \<open>2^53\<close>.
\<close>

definition is_space :: "char \<Rightarrow> bool" where
  "is_space c = ((of_char c :: nat) \<in> {9, 10, 11, 12, 13, 32, 160})"

definition digit_of :: "char \<Rightarrow> nat option" where
  "digit_of c =
     (let n = (of_char c :: nat) in
      if 48 \<le> n \<and> n \<le> 57 then Some (n - 48)
      else if 97 \<le> n \<and> n \<le> 102 then Some (n - 87)
      else if 65 \<le> n \<and> n \<le> 70 then Some (n - 55)
      else None)"

definition is_digit :: "nat \<Rightarrow> char \<Rightarrow> bool" where
  "is_digit radix c = (case digit_of c of None \<Rightarrow> False | Some d \<Rightarrow> d < radix)"

definition digits_value :: "nat \<Rightarrow> string \<Rightarrow> nat" where
  "digits_value radix ds = foldl (\<lambda>a c. a * radix + (case digit_of c of None \<Rightarrow> 0 | Some d \<Rightarrow> d)) 0 ds"

definition read_sign :: "string \<Rightarrow> bool \<times> string" where
  "read_sign s =
     (case s of
        [] \<Rightarrow> (False, [])
      | c # r \<Rightarrow> if c = CHR ''-'' then (True, r) else if c = CHR ''+'' then (False, r) else (False, s))"

definition parseInt_str :: "string \<Rightarrow> int option" where
  "parseInt_str s =
     (let (neg, u) = read_sign (dropWhile is_space s);
          (radix, v) = (if take 2 u = ''0x'' \<or> take 2 u = ''0X'' then (16, drop 2 u) else (10, u));
          ds = takeWhile (is_digit radix) v
      in if ds = [] then None
         else Some ((if neg then -1 else 1) * int (digits_value radix ds)))"

definition parseInt :: "string option \<Rightarrow> int option" where
  "parseInt v = (case v of None \<Rightarrow> None | Some s \<Rightarrow> parseInt_str s)"

text \<open>
  \<^verbatim>\<open>x || d\<close> on a number: \<^verbatim>\<open>NaN\<close> and zero are falsy.
\<close>

definition or_default :: "int option \<Rightarrow> int \<Rightarrow> int" where
  "or_default v d = (case v of None \<Rightarrow> d | Some n \<Rightarrow> if n = 0 then d else n)"

text \<open>
  \<^verbatim>\<open>parseFloat(s)\<close>: white space, sign, then \<^verbatim>\<open>Infinity\<close> or the longest decimal
  literal (digits, optional fraction, optional exponent). The value is the exact
  rational that the literal denotes; the double that the code computes agrees with it
  when the literal is exactly representable, and neither rounding nor overflow of a
  large exponent to \<^verbatim>\<open>Infinity\<close> is represented.
\<close>

datatype jsnum = NaN | PosInf | NegInf | Num rat

definition read_exponent :: "string \<Rightarrow> int" where
  "read_exponent r =
     (case r of
        [] \<Rightarrow> 0
      | c # r' \<Rightarrow>
          if c = CHR ''e'' \<or> c = CHR ''E''
          then (let (neg, d) = read_sign r'; ds = takeWhile (is_digit 10) d
                in if ds = [] then 0 else (if neg then -1 else 1) * int (digits_value 10 ds))
          else 0)"

definition pow10 :: "int \<Rightarrow> rat" where
  "pow10 e = (if 0 \<le> e then 10 ^ nat e else 1 / 10 ^ nat (- e))"

definition parseFloat :: "string \<Rightarrow> jsnum" where
  "parseFloat s =
     (let (neg, u) = read_sign (dropWhile is_space s)
      in if take 8 u = ''Infinity'' then (if neg then NegInf else PosInf)
         else
           (let ip = takeWhile (is_digit 10) u;
                r1 = drop (length ip) u;
                fp = (case r1 of [] \<Rightarrow> [] | c # r \<Rightarrow> if c = CHR ''.'' then takeWhile (is_digit 10) r else []);
                r2 = (case r1 of [] \<Rightarrow> [] | c # r \<Rightarrow> if c = CHR ''.'' then drop (length fp) r else r1)
            in if ip = [] \<and> fp = [] then NaN
               else Num ((if neg then -1 else 1)
                         * (of_nat (digits_value 10 ip) + of_nat (digits_value 10 fp) / 10 ^ length fp)
                         * pow10 (read_exponent r2))))"

section \<open>Requests\<close>

text \<open>
  \<^verbatim>\<open>req.query\<close> maps parameter names to strings (each parameter given at most once).
  \<^verbatim>\<open>req.params.id\<close> is the primary key the URL names, \<^verbatim>\<open>req.body\<close> the parsed
  JSON object, \<^verbatim>\<open>req.user\<close> the acting principal that the \<^verbatim>\<open>auth\<close> and
  \<^verbatim>\<open>partnerAuth\<close> middleware resolved, and \<open>verrors\<close> is
  \<^verbatim>\<open>validationResult(req).array()\<close>, the violations that the express-validator
  chains declared on the route found before the handler runs.
\<close>

record principal =
  uid :: json
  partnerId :: json

record request =
  query :: "string \<rightharpoonup> string"
  params_id :: nat
  body :: "(string \<times> json) list"
  user :: principal
  verrors :: "json list"

text \<open>
  \<^verbatim>\<open>if (req.query.k) ...\<close>: the statement runs when the parameter is present and not
  the empty string.
\<close>

definition truthy :: "string option \<Rightarrow> bool" where
  "truthy v = (case v of None \<Rightarrow> False | Some s \<Rightarrow> s \<noteq> [])"

definition when_truthy :: "string option \<Rightarrow> (string \<Rightarrow> 'a \<Rightarrow> exn + 'a) \<Rightarrow> 'a \<Rightarrow> exn + 'a" where
  "when_truthy v f w = (case v of None \<Rightarrow> Inr w | Some s \<Rightarrow> if s = [] then Inr w else f s w)"

section \<open>Query specifications\<close>

text \<open>
  The argument of \<^verbatim>\<open>findAndCountAll\<close>: the \<^verbatim>\<open>where\<close> object, the included
  association (alias and attributes), the order list, offset and limit. A field of
  \<^verbatim>\<open>where\<close> is compared for equality or carries an object keyed by the operator
  symbols \<^verbatim>\<open>Op.gte\<close> and \<^verbatim>\<open>Op.lte\<close>.
\<close>

datatype op = Gte | Lte

datatype cond = Eq json | Ops "(op \<times> jsnum) list"

datatype dir = ASC | DESC

type_synonym where_clause = "(string \<times> cond) list"

record listquery =
  qwhere :: where_clause
  qinclude :: "string \<times> string list"
  qorder :: "(string \<times> dir) list"
  qoffset :: int
  qlimit :: int

text \<open>
  \<^verbatim>\<open>where.f = { ...where.f, [Op.o]: parseFloat(s) }\<close>: the spread copies the bounds
  already on the field (none when the field is undefined), then the computed key
  \<^verbatim>\<open>Op.o\<close> is evaluated, which needs \<^verbatim>\<open>Op\<close> in scope, then the bound is set.
\<close>

definition bounds_of :: "where_clause \<Rightarrow> string \<Rightarrow> (op \<times> jsnum) list" where
  "bounds_of w f = (case map_of w f of Some (Ops l) \<Rightarrow> l | _ \<Rightarrow> [])"

definition price_bound :: "string list \<Rightarrow> string \<Rightarrow> op \<Rightarrow> string \<Rightarrow> where_clause \<Rightarrow> exn + where_clause" where
  "price_bound scope f o' s w =
     (case resolve scope ''Op'' of
        Inl e \<Rightarrow> Inl e
      | Inr _ \<Rightarrow> Inr (AList.update f (Ops (AList.update o' (parseFloat s) (bounds_of w f))) w))"

text \<open>
  \<^verbatim>\<open>x[k] = v\<close> and \<^verbatim>\<open>x.k = v\<close> on an identifier \<open>x\<close> other than \<^verbatim>\<open>where\<close>:
  the identifier is evaluated first; the \<^verbatim>\<open>where\<close> object is not touched.
\<close>

definition assign_member :: "string list \<Rightarrow> string \<Rightarrow> where_clause \<Rightarrow> exn + where_clause" where
  "assign_member scope x w = (case resolve scope x of Inl e \<Rightarrow> Inl e | Inr _ \<Rightarrow> Inr w)"

definition set_category :: "string \<Rightarrow> where_clause \<Rightarrow> exn + where_clause" where
  "set_category s w = Inr (AList.update ''category'' (Eq (JStr s)) w)"

subsection \<open>Vehicles: \<^verbatim>\<open>GET /api/vehicles\<close>, query construction\<close>

text \<open>
  The names bound and initialised where the filter statements of the listing handler
  run: the module's \<^verbatim>\<open>require\<close> bindings and its router, the handler's parameters
  and the locals declared so far, and the globals the module uses.
\<close>

definition js_globals :: "string list" where
  "js_globals = [''require'', ''module'', ''console'', ''parseInt'', ''parseFloat'', ''RegExp'', ''Math'', ''Date'']"

definition vehicles_scope :: "string list" where
  "vehicles_scope =
     [''express'', ''body'', ''query'', ''validationResult'', ''Vehicle'', ''Partner'', ''auth'',
      ''partnerAuth'', ''Op'', ''router'',
      ''req'', ''res'', ''errors'', ''page'', ''limit'', ''offset'', ''where''] @ js_globals"

definition vehicles_where :: "(string \<rightharpoonup> string) \<Rightarrow> exn + where_clause" where
  "vehicles_where q =
     run_steps
       [when_truthy (q ''category'') set_category,
        when_truthy (q ''minPriceHour'') (price_bound vehicles_scope ''pricePerHour'' Gte),
        when_truthy (q ''maxPriceHour'') (price_bound vehicles_scope ''pricePerHour'' Lte),
        when_truthy (q ''minPriceDay'') (price_bound vehicles_scope ''pricePerDay'' Gte),
        when_truthy (q ''maxPriceDay'') (price_bound vehicles_scope ''pricePerDay'' Lte),
        when_truthy (q ''city'') (\<lambda>s. assign_member vehicles_scope ''filter''),
        when_truthy (q ''state'') (\<lambda>s. assign_member vehicles_scope ''filter''),
        when_truthy (q ''search'') (\<lambda>s. assign_member vehicles_scope ''filter'')]
       [(''status'', Eq (JStr ''active''))]"

definition vehicles_order :: "string option \<Rightarrow> (string \<times> dir) list" where
  "vehicles_order key =
     (if key = Some ''price_hour_asc'' then [(''pricePerHour'', ASC)]
      else if key = Some ''price_hour_desc'' then [(''pricePerHour'', DESC)]
      else if key = Some ''price_day_asc'' then [(''pricePerDay'', ASC)]
      else if key = Some ''price_day_desc'' then [(''pricePerDay'', DESC)]
      else if key = Some ''rating'' then [(''rating'', DESC)]
      else if key = Some ''newest'' then [(''createdAt'', DESC)]
      else [(''featured'', DESC), (''rating'', DESC)])"

definition page_of :: "(string \<rightharpoonup> string) \<Rightarrow> int" where
  "page_of q = or_default (parseInt (q ''page'')) 1"

definition limit_of :: "(string \<rightharpoonup> string) \<Rightarrow> int" where
  "limit_of q = or_default (parseInt (q ''limit'')) 10"

definition offset_of :: "(string \<rightharpoonup> string) \<Rightarrow> int" where
  "offset_of q = (page_of q - 1) * limit_of q"

definition vehicles_build_query :: "(string \<rightharpoonup> string) \<Rightarrow> exn + listquery" where
  "vehicles_build_query q =
     (case vehicles_where q of
        Inl e \<Rightarrow> Inl e
      | Inr w \<Rightarrow>
          Inr \<lparr> qwhere = w,
                qinclude = (''owner'', [''businessName'', ''rating'', ''contact'']),
                qorder = vehicles_order (q ''sort''),
                qoffset = offset_of q,
                qlimit = limit_of q \<rparr>)"

subsection \<open>Materials: \<^verbatim>\<open>GET /api/materials\<close>, query construction\<close>

definition materials_scope :: "string list" where
  "materials_scope =
     [''express'', ''body'', ''query'', ''validationResult'', ''Material'', ''Partner'', ''auth'',
      ''partnerAuth'', ''router'',
      ''req'', ''res'', ''errors'', ''page'', ''limit'', ''offset'', ''where''] @ js_globals"

definition materials_where :: "(string \<rightharpoonup> string) \<Rightarrow> exn + where_clause" where
  "materials_where q =
     run_steps
       [when_truthy (q ''category'') set_category,
        when_truthy (q ''minPrice'') (price_bound materials_scope ''pricePerUnit'' Gte),
        when_truthy (q ''maxPrice'') (price_bound materials_scope ''pricePerUnit'' Lte)]
       [(''isAvailable'', Eq (JBool True))]"

definition materials_order :: "string option \<Rightarrow> (string \<times> dir) list" where
  "materials_order key =
     (if key = Some ''price_asc'' then [(''pricePerUnit'', ASC)]
      else if key = Some ''price_desc'' then [(''pricePerUnit'', DESC)]
      else if key = Some ''rating'' then [(''rating'', DESC)]
      else if key = Some ''newest'' then [(''createdAt'', DESC)]
      else [(''featured'', DESC), (''rating'', DESC)])"

definition materials_build_query :: "(string \<rightharpoonup> string) \<Rightarrow> exn + listquery" where
  "materials_build_query q =
     (case materials_where q of
        Inl e \<Rightarrow> Inl e
      | Inr w \<Rightarrow>
          Inr \<lparr> qwhere = w,
                qinclude = (''supplier'', [''businessName'', ''rating'']),
                qorder = materials_order (q ''sort''),
                qoffset = offset_of q,
                qlimit = limit_of q \<rparr>)"

section \<open>The persistence layer\<close>

text \<open>
  Modelled from the spec: the Sequelize models (\<^verbatim>\<open>require('../models')\<close>) and the
  storage engine behind them, which are outside the three route modules. The store
  holds one table per model; vehicles and materials are keyed by the primary key that
  the URL names, partners and users by the identity value that foreign keys and
  \<^verbatim>\<open>req.user\<close> carry. \<open>online\<close> tells whether the persistence layer answers;
  when it does not, every call throws.
\<close>

record store =
  vehicles_tbl :: "(nat \<times> entity) list"
  materials_tbl :: "(nat \<times> entity) list"
  partners_tbl :: "(json \<times> entity) list"
  users_tbl :: "(json \<times> entity) list"
  serviceRequests_tbl :: "entity list"
  next_id :: nat
  online :: bool

text \<open>Modelled from the spec: reading an attribute of a record; an unset column is null.\<close>

definition field :: "entity \<Rightarrow> string \<Rightarrow> json" where
  "field e k = (case map_of e k of None \<Rightarrow> JNull | Some v \<Rightarrow> v)"

text \<open>
  Modelled from the spec: the storage engine's evaluation of a predicate on a
  record. All constraints of the \<^verbatim>\<open>where\<close> object are combined with logical AND; a
  bound constrains a numeric column; a comparison with \<^verbatim>\<open>NaN\<close> holds for no record.
\<close>

fun op_holds :: "op \<Rightarrow> rat \<Rightarrow> jsnum \<Rightarrow> bool" where
  "op_holds Gte x (Num b) = (b \<le> x)"
| "op_holds Lte x (Num b) = (x \<le> b)"
| "op_holds Gte x NegInf = True"
| "op_holds Gte x PosInf = False"
| "op_holds Lte x PosInf = True"
| "op_holds Lte x NegInf = False"
| "op_holds _ x NaN = False"

fun cond_holds :: "cond \<Rightarrow> json \<Rightarrow> bool" where
  "cond_holds (Eq v) x = (x = v)"
| "cond_holds (Ops l) (JNum x) = list_all (\<lambda>(o', b). op_holds o' x b) l"
| "cond_holds (Ops l) _ = False"

definition matches :: "where_clause \<Rightarrow> entity \<Rightarrow> bool" where
  "matches w e = list_all (\<lambda>(k, c). cond_holds c (field e k)) w"

text \<open>
  Modelled from the spec: the engine's sort for an ordering list of (field, direction)
  pairs, as a stable insertion sort that compares the listed fields in turn.
\<close>

fun json_rank :: "json \<Rightarrow> nat" where
  "json_rank JNull = 0"
| "json_rank (JBool _) = 1"
| "json_rank (JNum _) = 2"
| "json_rank (JStr _) = 3"
| "json_rank (JArr _) = 4"
| "json_rank (JObj _) = 5"

fun str_le :: "string \<Rightarrow> string \<Rightarrow> bool" where
  "str_le [] _ = True"
| "str_le (a # as) [] = False"
| "str_le (a # as) (b # bs) = (if a = b then str_le as bs else (of_char a :: nat) < of_char b)"

fun json_le :: "json \<Rightarrow> json \<Rightarrow> bool" where
  "json_le (JBool a) (JBool b) = (a \<le> b)"
| "json_le (JNum a) (JNum b) = (a \<le> b)"
| "json_le (JStr a) (JStr b) = str_le a b"
| "json_le a b = (json_rank a \<le> json_rank b)"

fun row_le :: "(string \<times> dir) list \<Rightarrow> entity \<Rightarrow> entity \<Rightarrow> bool" where
  "row_le [] a b = True"
| "row_le ((f, d) # os) a b =
     (if field a f = field b f then row_le os a b
      else (case d of ASC \<Rightarrow> json_le (field a f) (field b f)
                    | DESC \<Rightarrow> json_le (field b f) (field a f)))"

fun insert_row :: "(string \<times> dir) list \<Rightarrow> entity \<Rightarrow> entity list \<Rightarrow> entity list" where
  "insert_row os a [] = [a]"
| "insert_row os a (b # bs) = (if row_le os a b then a # b # bs else b # insert_row os a bs)"

definition sort_rows :: "(string \<times> dir) list \<Rightarrow> entity list \<Rightarrow> entity list" where
  "sort_rows os rows = foldr (insert_row os) rows []"

text \<open>
  Modelled from the spec: an included association attaches, under its alias, the
  listed attributes of the partner that the foreign key names, or null.
\<close>

definition with_include :: "store \<Rightarrow> string \<Rightarrow> string \<times> string list \<Rightarrow> entity \<Rightarrow> json" where
  "with_include st fk inc e =
     JObj (AList.update (fst inc)
             (case map_of (partners_tbl st) (field e fk) of
                None \<Rightarrow> JNull
              | Some p \<Rightarrow> JObj (filter (\<lambda>(k, v). k \<in> set (snd inc)) p)) e)"

text \<open>
  Modelled from the spec: \<^verbatim>\<open>findAndCountAll\<close> returns the total count of the records
  that satisfy the predicate, ignoring pagination, and the records of the page window
  of the ordered matches. A negative offset or limit is rejected by the engine.
\<close>

definition findAndCountAll ::
    "store \<Rightarrow> (nat \<times> entity) list \<Rightarrow> string \<Rightarrow> listquery \<Rightarrow> exn + (nat \<times> json list)" where
  "findAndCountAll st tbl fk q =
     (if \<not> online st \<or> qoffset q < 0 \<or> qlimit q < 0 then Inl StorageError
      else
        (let ms = filter (matches (qwhere q)) (map snd tbl)
         in Inr (length ms,
                 map (with_include st fk (qinclude q))
                   (take (nat (qlimit q)) (drop (nat (qoffset q)) (sort_rows (qorder q) ms))))))"

text \<open>Modelled from the spec: lookup by primary key; \<open>None\<close> is \<^verbatim>\<open>null\<close>.\<close>

definition findByPk :: "store \<Rightarrow> ('k \<times> entity) list \<Rightarrow> 'k \<Rightarrow> exn + entity option" where
  "findByPk st tbl k = (if online st then Inr (map_of tbl k) else Inl StorageError)"

text \<open>
  Modelled from the spec: \<^verbatim>\<open>findAll\<close> with \<^verbatim>\<open>attributes: ['category']\<close> and
  \<^verbatim>\<open>group: ['category']\<close> returns one row per distinct category value.
\<close>

definition findAll_group_category :: "store \<Rightarrow> (nat \<times> entity) list \<Rightarrow> exn + entity list" where
  "findAll_group_category st tbl =
     (if online st
      then Inr (map (\<lambda>c. [(''category'', c)]) (remdups (map (\<lambda>e. field e ''category'') (map snd tbl))))
      else Inl StorageError)"

text \<open>
  Modelled from the spec: \<^verbatim>\<open>create\<close> stores the given attributes under a fresh
  primary key; \<^verbatim>\<open>update\<close> changes the supplied attributes only; \<^verbatim>\<open>destroy\<close>
  removes the record.
\<close>

definition new_row :: "store \<Rightarrow> entity \<Rightarrow> entity" where
  "new_row st data = AList.update ''id'' (JNum (of_nat (next_id st))) data"

definition set_attrs :: "entity \<Rightarrow> entity \<Rightarrow> entity" where
  "set_attrs vals e = fold (\<lambda>(k, v). AList.update k v) vals e"

definition create_vehicle :: "store \<Rightarrow> entity \<Rightarrow> exn + (entity \<times> store)" where
  "create_vehicle st data =
     (if online st
      then Inr (new_row st data,
                st\<lparr>vehicles_tbl := vehicles_tbl st @ [(next_id st, new_row st data)], next_id := Suc (next_id st)\<rparr>)
      else Inl StorageError)"

definition create_material :: "store \<Rightarrow> entity \<Rightarrow> exn + (entity \<times> store)" where
  "create_material st data =
     (if online st
      then Inr (new_row st data,
                st\<lparr>materials_tbl := materials_tbl st @ [(next_id st, new_row st data)], next_id := Suc (next_id st)\<rparr>)
      else Inl StorageError)"

definition update_vehicle :: "store \<Rightarrow> nat \<Rightarrow> entity \<Rightarrow> entity \<Rightarrow> exn + (entity \<times> store)" where
  "update_vehicle st k e vals =
     (if online st
      then Inr (set_attrs vals e, st\<lparr>vehicles_tbl := AList.update k (set_attrs vals e) (vehicles_tbl st)\<rparr>)
      else Inl StorageError)"

definition update_material :: "store \<Rightarrow> nat \<Rightarrow> entity \<Rightarrow> entity \<Rightarrow> exn + (entity \<times> store)" where
  "update_material st k e vals =
     (if online st
      then Inr (set_attrs vals e, st\<lparr>materials_tbl := AList.update k (set_attrs vals e) (materials_tbl st)\<rparr>)
      else Inl StorageError)"

definition destroy_vehicle :: "store \<Rightarrow> nat \<Rightarrow> exn + store" where
  "destroy_vehicle st k =
     (if online st then Inr (st\<lparr>vehicles_tbl := AList.delete k (vehicles_tbl st)\<rparr>) else Inl StorageError)"

definition destroy_material :: "store \<Rightarrow> nat \<Rightarrow> exn + store" where
  "destroy_material st k =
     (if online st then Inr (st\<lparr>materials_tbl := AList.delete k (materials_tbl st)\<rparr>) else Inl StorageError)"

text \<open>
  Modelled from the spec: the persistence calls of the users module. \<^verbatim>\<open>findOne\<close>
  looks for another account with the given email; \<^verbatim>\<open>req.user.update\<close> changes the
  supplied attributes of the principal's own record; the two \<^verbatim>\<open>destroy\<close> calls remove
  the records selected by their predicate.
\<close>

definition findOne_other_email :: "store \<Rightarrow> json \<Rightarrow> json \<Rightarrow> exn + entity option" where
  "findOne_other_email st email ident =
     (if online st
      then Inr (map_option snd (find (\<lambda>(k, e). field e ''email'' = email \<and> k \<noteq> ident) (users_tbl st)))
      else Inl StorageError)"

definition update_user :: "store \<Rightarrow> json \<Rightarrow> entity \<Rightarrow> exn + store" where
  "update_user st ident vals =
     (if online st
      then Inr (st\<lparr>users_tbl := map (\<lambda>(k, e). if k = ident then (k, set_attrs vals e) else (k, e)) (users_tbl st)\<rparr>)
      else Inl StorageError)"

definition destroy_requests_of :: "store \<Rightarrow> json \<Rightarrow> exn + store" where
  "destroy_requests_of st ident =
     (if online st
      then Inr (st\<lparr>serviceRequests_tbl := filter (\<lambda>e. field e ''userId'' \<noteq> ident) (serviceRequests_tbl st)\<rparr>)
      else Inl StorageError)"

definition destroy_user :: "store \<Rightarrow> json \<Rightarrow> exn + store" where
  "destroy_user st ident =
     (if online st then Inr (st\<lparr>users_tbl := filter (\<lambda>(k, e). k \<noteq> ident) (users_tbl st)\<rparr>) else Inl StorageError)"

definition findAll_requests_of :: "store \<Rightarrow> json \<Rightarrow> exn + entity list" where
  "findAll_requests_of st ident =
     (if online st
      then Inr (sort_rows [(''requestDate'', DESC)] (filter (\<lambda>e. field e ''userId'' = ident) (serviceRequests_tbl st)))
      else Inl StorageError)"

section \<open>Response bodies\<close>

definition failure :: "string \<Rightarrow> json" where
  "failure m = JObj [(''success'', JBool False), (''message'', JStr m)]"

definition validation_failed :: "json list \<Rightarrow> json" where
  "validation_failed errs =
     JObj [(''success'', JBool False), (''message'', JStr ''Validation failed''), (''errors'', JArr errs)]"

definition success_data :: "json \<Rightarrow> json" where
  "success_data d = JObj [(''success'', JBool True), (''data'', d)]"

definition success_message :: "string \<Rightarrow> json" where
  "success_message m = JObj [(''success'', JBool True), (''message'', JStr m)]"

definition success_message_data :: "string \<Rightarrow> json \<Rightarrow> json" where
  "success_message_data m d = JObj [(''success'', JBool True), (''message'', JStr m), (''data'', d)]"

text \<open>
  The pagination object of a listing response; \<^verbatim>\<open>Math.ceil(count / limit)\<close> is the
  ceiling of the exact quotient.
\<close>

definition pages_of :: "nat \<Rightarrow> int \<Rightarrow> int" where
  "pages_of count limit = \<lceil>(of_nat count :: rat) / of_int limit\<rceil>"

definition pagination :: "int \<Rightarrow> int \<Rightarrow> nat \<Rightarrow> json" where
  "pagination page limit count =
     JObj [(''page'', JNum (of_int page)), (''limit'', JNum (of_int limit)),
           (''total'', JNum (of_nat count)), (''pages'', JNum (of_int (pages_of count limit)))]"

definition listing :: "json list \<Rightarrow> json \<Rightarrow> json" where
  "listing rows pg = JObj [(''success'', JBool True), (''data'', JArr rows), (''pagination'', pg)]"

text \<open>\<^verbatim>\<open>a !== b\<close> is the negation of strict equality; two distinct objects are never equal.\<close>

fun strict_eq :: "json \<Rightarrow> json \<Rightarrow> bool" where
  "strict_eq (JArr _) _ = False"
| "strict_eq (JObj _) _ = False"
| "strict_eq a b = (a = b)"

section \<open>The vehicles routes\<close>

definition vehicles_list :: "store \<Rightarrow> request \<Rightarrow> response" where
  "vehicles_list st req =
     (if verrors req \<noteq> [] then Json 400 (validation_failed (verrors req))
      else
        (case vehicles_build_query (query req) of
           Inl e \<Rightarrow> Json 500 (failure ''Server error while fetching vehicles'')
         | Inr q \<Rightarrow>
             (case findAndCountAll st (vehicles_tbl st) ''ownerId'' q of
                Inl e \<Rightarrow> Json 500 (failure ''Server error while fetching vehicles'')
              | Inr (count, rows) \<Rightarrow>
                  Json 200 (listing rows (pagination (page_of (query req)) (limit_of (query req)) count)))))"

definition vehicles_get :: "store \<Rightarrow> request \<Rightarrow> response" where
  "vehicles_get st req =
     (case findByPk st (vehicles_tbl st) (params_id req) of
        Inl e \<Rightarrow> Json 500 (failure ''Server error while fetching vehicle'')
      | Inr None \<Rightarrow> Json 404 (failure ''Vehicle not found'')
      | Inr (Some vehicle) \<Rightarrow>
          Json 200 (success_data
            (with_include st ''ownerId'' (''owner'', [''businessName'', ''contact'', ''rating'', ''address'']) vehicle)))"

definition vehicles_create :: "store \<Rightarrow> request \<Rightarrow> response \<times> store" where
  "vehicles_create st req =
     (if verrors req \<noteq> [] then (Json 400 (validation_failed (verrors req)), st)
      else
        (let vehicleData = AList.update ''ownerId'' (partnerId (user req)) (body req)
         in case create_vehicle st vehicleData of
              Inl e \<Rightarrow> (Json 500 (failure ''Server error while creating vehicle''), st)
            | Inr (vehicle, st') \<Rightarrow>
                (Json 201 (success_message_data ''Vehicle created successfully''
                   (with_include st' ''ownerId'' (''owner'', [''businessName'', ''rating'']) vehicle)), st')))"

definition vehicles_update :: "store \<Rightarrow> request \<Rightarrow> response \<times> store" where
  "vehicles_update st req =
     (case findByPk st (vehicles_tbl st) (params_id req) of
        Inl e \<Rightarrow> (Json 500 (failure ''Server error while updating vehicle''), st)
      | Inr None \<Rightarrow> (Json 404 (failure ''Vehicle not found''), st)
      | Inr (Some vehicle) \<Rightarrow>
          if \<not> strict_eq (field vehicle ''ownerId'') (partnerId (user req))
          then (Json 403 (failure ''Not authorized to update this vehicle''), st)
          else
            (case update_vehicle st (params_id req) vehicle (body req) of
               Inl e \<Rightarrow> (Json 500 (failure ''Server error while updating vehicle''), st)
             | Inr (vehicle', st') \<Rightarrow>
                 (Json 200 (success_message_data ''Vehicle updated successfully''
                    (with_include st' ''ownerId'' (''owner'', [''businessName'', ''rating'']) vehicle')), st')))"

definition vehicles_delete :: "store \<Rightarrow> request \<Rightarrow> response \<times> store" where
  "vehicles_delete st req =
     (case findByPk st (vehicles_tbl st) (params_id req) of
        Inl e \<Rightarrow> (Json 500 (failure ''Server error while deleting vehicle''), st)
      | Inr None \<Rightarrow> (Json 404 (failure ''Vehicle not found''), st)
      | Inr (Some vehicle) \<Rightarrow>
          if \<not> strict_eq (field vehicle ''ownerId'') (partnerId (user req))
          then (Json 403 (failure ''Not authorized to delete this vehicle''), st)
          else
            (case destroy_vehicle st (params_id req) of
               Inl e \<Rightarrow> (Json 500 (failure ''Server error while deleting vehicle''), st)
             | Inr st' \<Rightarrow> (Json 200 (success_message ''Vehicle deleted successfully''), st')))"

definition vehicles_availability :: "store \<Rightarrow> request \<Rightarrow> response \<times> store" where
  "vehicles_availability st req =
     (if verrors req \<noteq> [] then (Json 400 (validation_failed (verrors req)), st)
      else
        (case findByPk st (vehicles_tbl st) (params_id req) of
           Inl e \<Rightarrow> (Json 500 (failure ''Server error while updating availability''), st)
         | Inr None \<Rightarrow> (Json 404 (failure ''Vehicle not found''), st)
         | Inr (Some vehicle) \<Rightarrow>
             if \<not> strict_eq (field vehicle ''ownerId'') (partnerId (user req))
             then (Json 403 (failure ''Not authorized to update this vehicle''), st)
             else
               (let availabilityData = body req
                in case update_vehicle st (params_id req) vehicle [(''availability'', JObj availabilityData)] of
                     Inl e \<Rightarrow> (Json 500 (failure ''Server error while updating availability''), st)
                   | Inr (vehicle', st') \<Rightarrow>
                       (Json 200 (success_message_data ''Vehicle availability updated successfully''
                          (JObj vehicle')), st'))))"

definition vehicles_categories :: "store \<Rightarrow> request \<Rightarrow> response" where
  "vehicles_categories st req =
     (case findAll_group_category st (vehicles_tbl st) of
        Inl e \<Rightarrow> Json 500 (failure ''Server error while fetching categories'')
      | Inr vs \<Rightarrow> Json 200 (success_data (JArr (map (\<lambda>v. field v ''category'') vs))))"

section \<open>The materials routes\<close>

definition materials_list :: "store \<Rightarrow> request \<Rightarrow> response" where
  "materials_list st req =
     (if verrors req \<noteq> [] then Json 400 (validation_failed (verrors req))
      else
        (case materials_build_query (query req) of
           Inl e \<Rightarrow> Json 500 (failure ''Server error while fetching materials'')
         | Inr q \<Rightarrow>
             (case findAndCountAll st (materials_tbl st) ''supplierId'' q of
                Inl e \<Rightarrow> Json 500 (failure ''Server error while fetching materials'')
              | Inr (count, rows) \<Rightarrow>
                  Json 200 (listing rows (pagination (page_of (query req)) (limit_of (query req)) count)))))"

definition materials_get :: "store \<Rightarrow> request \<Rightarrow> response" where
  "materials_get st req =
     (case findByPk st (materials_tbl st) (params_id req) of
        Inl e \<Rightarrow> Json 500 (failure ''Server error while fetching material'')
      | Inr None \<Rightarrow> Json 404 (failure ''Material not found'')
      | Inr (Some material) \<Rightarrow>
          Json 200 (success_data
            (with_include st ''supplierId'' (''supplier'', [''businessName'', ''contact'', ''rating'', ''address'']) material)))"

definition materials_create :: "store \<Rightarrow> request \<Rightarrow> response \<times> store" where
  "materials_create st req =
     (if verrors req \<noteq> [] then (Json 400 (validation_failed (verrors req)), st)
      else
        (let materialData = AList.update ''supplierId'' (partnerId (user req)) (body req)
         in case create_material st materialData of
              Inl e \<Rightarrow> (Json 500 (failure ''Server error while creating material''), st)
            | Inr (material, st') \<Rightarrow>
                (Json 201 (success_message_data ''Material created successfully''
                   (with_include st' ''supplierId'' (''supplier'', [''businessName'', ''rating'']) material)), st')))"

definition materials_update :: "store \<Rightarrow> request \<Rightarrow> response \<times> store" where
  "materials_update st req =
     (if verrors req \<noteq> [] then (Json 400 (validation_failed (verrors req)), st)
      else
        (case findByPk st (materials_tbl st) (params_id req) of
           Inl e \<Rightarrow> (Json 500 (failure ''Server error while updating material''), st)
         | Inr None \<Rightarrow> (Json 404 (failure ''Material not found''), st)
         | Inr (Some material) \<Rightarrow>
             if \<not> strict_eq (field material ''supplierId'') (partnerId (user req))
             then (Json 403 (failure ''Not authorized to update this material''), st)
             else
               (case update_material st (params_id req) material (body req) of
                  Inl e \<Rightarrow> (Json 500 (failure ''Server error while updating material''), st)
                | Inr (material', st') \<Rightarrow>
                    (Json 200 (success_message_data ''Material updated successfully''
                       (with_include st' ''supplierId'' (''supplier'', [''businessName'', ''rating'']) material')), st'))))"

definition materials_delete :: "store \<Rightarrow> request \<Rightarrow> response \<times> store" where
  "materials_delete st req =
     (case findByPk st (materials_tbl st) (params_id req) of
        Inl e \<Rightarrow> (Json 500 (failure ''Server error while deleting material''), st)
      | Inr None \<Rightarrow> (Json 404 (failure ''Material not found''), st)
      | Inr (Some material) \<Rightarrow>
          if \<not> strict_eq (field material ''supplierId'') (partnerId (user req))
          then (Json 403 (failure ''Not authorized to delete this material''), st)
          else
            (case destroy_material st (params_id req) of
               Inl e \<Rightarrow> (Json 500 (failure ''Server error while deleting material''), st)
             | Inr st' \<Rightarrow> (Json 200 (success_message ''Material deleted successfully''), st')))"

definition materials_categories :: "store \<Rightarrow> request \<Rightarrow> response" where
  "materials_categories st req =
     (case findAll_group_category st (materials_tbl st) of
        Inl e \<Rightarrow> Json 500 (failure ''Server error while fetching categories'')
      | Inr ms \<Rightarrow> Json 200 (success_data (JArr (map (\<lambda>m. field m ''category'') ms))))"

section \<open>The users routes\<close>

text \<open>
  The names bound in a handler of \<^verbatim>\<open>server/routes/users.js\<close>: the module's
  \<^verbatim>\<open>require\<close> bindings and its router, the handler's parameters, and the globals
  the module uses.
\<close>

definition users_scope :: "string list" where
  "users_scope =
     [''express'', ''router'', ''auth'', ''body'', ''validationResult'', ''User'', ''ServiceRequest'',
      ''Op'', ''req'', ''res''] @ js_globals"

definition without_password :: "entity option \<Rightarrow> json" where
  "without_password u =
     (case u of None \<Rightarrow> JNull | Some e \<Rightarrow> JObj (filter (\<lambda>(k, v). k \<noteq> ''password'') e))"

definition success_user :: "json \<Rightarrow> json" where
  "success_user u = JObj [(''success'', JBool True), (''user'', u)]"

definition users_get_profile :: "store \<Rightarrow> request \<Rightarrow> response" where
  "users_get_profile st req =
     (case findByPk st (users_tbl st) (uid (user req)) of
        Inl e \<Rightarrow> Send 500 ''Server Error''
      | Inr u \<Rightarrow> Json 200 (success_user (without_password u)))"

text \<open>
  \<^verbatim>\<open>const { name, email, phone, address } = req.body\<close> followed by
  \<^verbatim>\<open>req.user.update({ name, email, phone, address })\<close>: the four attributes, each
  with the value the body gives it, when it gives one.
\<close>

definition profile_fields :: "entity \<Rightarrow> entity" where
  "profile_fields b = filter (\<lambda>(k, v). k \<in> set [''name'', ''email'', ''phone'', ''address'']) b"

definition users_put_profile :: "store \<Rightarrow> request \<Rightarrow> response \<times> store" where
  "users_put_profile st req =
     (if verrors req \<noteq> [] then (Json 400 (JObj [(''errors'', JArr (verrors req))]), st)
      else
        (case findOne_other_email st (field (body req) ''email'') (uid (user req)) of
           Inl e \<Rightarrow> (Send 500 ''Server Error'', st)
         | Inr (Some existingUser) \<Rightarrow>
             (Json 400 (failure ''Email is already registered to another account''), st)
         | Inr None \<Rightarrow>
             (case update_user st (uid (user req)) (profile_fields (body req)) of
                Inl e \<Rightarrow> (Send 500 ''Server Error'', st)
              | Inr st' \<Rightarrow>
                  (case findByPk st' (users_tbl st') (uid (user req)) of
                     Inl e \<Rightarrow> (Send 500 ''Server Error'', st')
                   | Inr u \<Rightarrow> (Json 200 (success_user (without_password u)), st')))))"

text \<open>
  \<^verbatim>\<open>GET /api/users/orders\<close>: the argument of \<^verbatim>\<open>ServiceRequest.findAll\<close> is an
  object literal whose \<^verbatim>\<open>include\<close> list names \<^verbatim>\<open>Material\<close> and \<^verbatim>\<open>Vehicle\<close>;
  the literal is evaluated before the call.
\<close>

definition orders_include :: "exn + unit" where
  "orders_include =
     (case resolve users_scope ''Material'' of
        Inl e \<Rightarrow> Inl e
      | Inr _ \<Rightarrow> resolve users_scope ''Vehicle'')"

definition users_orders :: "store \<Rightarrow> request \<Rightarrow> response" where
  "users_orders st req =
     (case orders_include of
        Inl e \<Rightarrow> Send 500 ''Server Error''
      | Inr _ \<Rightarrow>
          (case findAll_requests_of st (uid (user req)) of
             Inl e \<Rightarrow> Send 500 ''Server Error''
           | Inr orders \<Rightarrow> Json 200 (success_data (JArr (map JObj orders)))))"

definition users_delete_account :: "store \<Rightarrow> request \<Rightarrow> response \<times> store" where
  "users_delete_account st req =
     (case destroy_requests_of st (uid (user req)) of
        Inl e \<Rightarrow> (Send 500 ''Server Error'', st)
      | Inr st1 \<Rightarrow>
          (case destroy_user st1 (uid (user req)) of
             Inl e \<Rightarrow> (Send 500 ''Server Error'', st1)
           | Inr st2 \<Rightarrow> (Json 200 (success_message ''User account deleted successfully''), st2)))"

section \<open>Shapes of responses\<close>

text \<open>
  The envelope \<^verbatim>\<open>{success: bool, ...}\<close>: a JSON object with a boolean
  \<^verbatim>\<open>success\<close>; a \<^verbatim>\<open>message\<close> string; an \<^verbatim>\<open>errors\<close> array.
\<close>

definition obj_field :: "response \<Rightarrow> string \<Rightarrow> json option" where
  "obj_field r k = (case r of Json c (JObj fs) \<Rightarrow> map_of fs k | _ \<Rightarrow> None)"

definition has_success :: "response \<Rightarrow> bool" where
  "has_success r = (case obj_field r ''success'' of Some (JBool b) \<Rightarrow> True | _ \<Rightarrow> False)"

definition has_message :: "response \<Rightarrow> bool" where
  "has_message r = (case obj_field r ''message'' of Some (JStr m) \<Rightarrow> True | _ \<Rightarrow> False)"

definition has_errors :: "response \<Rightarrow> bool" where
  "has_errors r = (case obj_field r ''errors'' of Some (JArr es) \<Rightarrow> True | _ \<Rightarrow> False)"

definition envelope :: "response \<Rightarrow> bool" where
  "envelope r = (has_success r \<and> (400 \<le> status r \<longrightarrow> has_message r))"

definition catalog_envelope :: "response \<Rightarrow> bool" where
  "catalog_envelope r = (envelope r \<and> (status r = 400 \<longrightarrow> has_errors r))"

text \<open>
  The shapes found in the users module: plain text \<^verbatim>\<open>Server Error\<close> with status
  500, or an envelope.
\<close>

definition users_shape :: "response \<Rightarrow> bool" where
  "users_shape r = (r = Send 500 ''Server Error'' \<or> envelope r)"

section \<open>Sample data\<close>

definition sample_store :: store where
  "sample_store =
     \<lparr> vehicles_tbl =
         [(1, [(''id'', JNum 1), (''name'', JStr ''CAT 320''), (''category'', JStr ''excavator''),
               (''status'', JStr ''active''), (''pricePerHour'', JNum 120), (''ownerId'', JNum 7)]),
          (2, [(''id'', JNum 2), (''name'', JStr ''LTM 1050''), (''category'', JStr ''crane''),
               (''status'', JStr ''inactive''), (''pricePerHour'', JNum 300), (''ownerId'', JNum 8)])],
       materials_tbl =
         [(1, [(''id'', JNum 1), (''name'', JStr ''River sand''), (''category'', JStr ''sand''),
               (''isAvailable'', JBool True), (''pricePerUnit'', JNum 30), (''supplierId'', JNum 7)]),
          (2, [(''id'', JNum 2), (''name'', JStr ''Rebar''), (''category'', JStr ''steel''),
               (''isAvailable'', JBool False), (''pricePerUnit'', JNum 900), (''supplierId'', JNum 8)])],
       partners_tbl =
         [(JNum 7, [(''businessName'', JStr ''Acme Rentals''), (''rating'', JNum 5)]),
          (JNum 8, [(''businessName'', JStr ''Delta Supply''), (''rating'', JNum 4)])],
       users_tbl =
         [(JNum 1, [(''id'', JNum 1), (''name'', JStr ''Ana''), (''email'', JStr ''ana@example.org''),
                    (''password'', JStr ''hash'')])],
       serviceRequests_tbl = [[(''id'', JNum 1), (''userId'', JNum 1), (''requestDate'', JStr ''2024-01-01'')]],
       next_id = 3,
       online = True \<rparr>"

text \<open>A request by user 1, acting for partner 8, naming record 1; nothing else is set.\<close>

definition sample_request :: request where
  "sample_request =
     \<lparr> query = Map.empty, params_id = 1, body = [],
       user = \<lparr> uid = JNum 1, partnerId = JNum 8 \<rparr>, verrors = [] \<rparr>"

text \<open>
  The same principal sends \<^verbatim>\<open>{"pricePerUnit": -5}\<close>; the chain
  \<^verbatim>\<open>body('pricePerUnit').optional().isFloat({ min: 0 })\<close> reports one violation.
\<close>

definition negative_price_request :: request where
  "negative_price_request =
     sample_request\<lparr> body := [(''pricePerUnit'', JNum (- 5))],
                      verrors := [JObj [(''path'', JStr ''pricePerUnit''), (''msg'', JStr ''Invalid value'')]] \<rparr>"




section \<open>Properties of query construction\<close>

lemma price_bound_vehicles:
  "price_bound vehicles_scope f o' =
     (\<lambda>s w. Inr (AList.update f (Ops (AList.update o' (parseFloat s) (bounds_of w f))) w))"
  by (simp add: fun_eq_iff price_bound_def resolve_def vehicles_scope_def)

lemma price_bound_materials:
  "price_bound materials_scope f o' = (\<lambda>s w. Inl (ReferenceError ''Op''))"
  by (simp add: fun_eq_iff price_bound_def resolve_def materials_scope_def js_globals_def)

lemma when_truthy_Inr:
  "when_truthy v (\<lambda>s w. Inr (g s w)) w =
     Inr (case v of None \<Rightarrow> w | Some s \<Rightarrow> if s = [] then w else g s w)"
  by (simp add: when_truthy_def split: option.splits)

lemma when_truthy_Inl:
  "when_truthy v (\<lambda>s w. Inl e) w = (if truthy v then Inl e else Inr w)"
  by (simp add: when_truthy_def truthy_def split: option.splits)

lemma assign_filter:
  "assign_member vehicles_scope ''filter'' = (\<lambda>w. Inl (ReferenceError ''filter''))"
  by (simp add: fun_eq_iff assign_member_def resolve_def vehicles_scope_def js_globals_def)

lemma set_category_eq:
  "set_category = (\<lambda>s w. Inr (AList.update ''category'' (Eq (JStr s)) w))"
  by (simp add: fun_eq_iff set_category_def)

lemma vehicles_where_location:
  "truthy (q ''city'') \<or> truthy (q ''state'') \<Longrightarrow> vehicles_where q = Inl (ReferenceError ''filter'')"
  unfolding vehicles_where_def
  by (auto simp: price_bound_vehicles set_category_eq when_truthy_Inr when_truthy_Inl assign_filter)

text \<open>A statement of the filter construction leaves every key it does not assign as it was.\<close>

lemma category_step_keeps:
  "when_truthy v set_category a = Inr b \<Longrightarrow> k \<noteq> ''category'' \<Longrightarrow> map_of b k = map_of a k"
  by (auto simp: when_truthy_def set_category_def update_conv' split: option.splits if_splits)

lemma price_step_keeps:
  "when_truthy v (price_bound scope f o') a = Inr b \<Longrightarrow> k \<noteq> f \<Longrightarrow> map_of b k = map_of a k"
  by (auto simp: when_truthy_def price_bound_def update_conv' split: option.splits if_splits sum.splits)

lemma assign_step_keeps:
  "when_truthy v (\<lambda>s. assign_member scope x) a = Inr b \<Longrightarrow> b = a"
  by (auto simp: when_truthy_def assign_member_def split: option.splits if_splits sum.splits)

lemma vehicles_where_keeps:
  assumes "vehicles_where q = Inr w" and "k \<notin> {''category'', ''pricePerHour'', ''pricePerDay''}"
  shows "map_of w k = map_of [(''status'', Eq (JStr ''active''))] k"
proof -
  from assms(1) obtain w1 w2 w3 w4 w5 w6 w7 where
    s: "when_truthy (q ''category'') set_category [(''status'', Eq (JStr ''active''))] = Inr w1"
       "when_truthy (q ''minPriceHour'') (price_bound vehicles_scope ''pricePerHour'' Gte) w1 = Inr w2"
       "when_truthy (q ''maxPriceHour'') (price_bound vehicles_scope ''pricePerHour'' Lte) w2 = Inr w3"
       "when_truthy (q ''minPriceDay'') (price_bound vehicles_scope ''pricePerDay'' Gte) w3 = Inr w4"
       "when_truthy (q ''maxPriceDay'') (price_bound vehicles_scope ''pricePerDay'' Lte) w4 = Inr w5"
       "when_truthy (q ''city'') (\<lambda>s. assign_member vehicles_scope ''filter'') w5 = Inr w6"
       "when_truthy (q ''state'') (\<lambda>s. assign_member vehicles_scope ''filter'') w6 = Inr w7"
       "when_truthy (q ''search'') (\<lambda>s. assign_member vehicles_scope ''filter'') w7 = Inr w"
    unfolding vehicles_where_def by (auto split: sum.splits)
  from assms(2) have k: "k \<noteq> ''category''" "k \<noteq> ''pricePerHour''" "k \<noteq> ''pricePerDay''" by auto
  show ?thesis
    using category_step_keeps [OF s(1) k(1)] price_step_keeps [OF s(2) k(2)]
      price_step_keeps [OF s(3) k(2)] price_step_keeps [OF s(4) k(3)] price_step_keeps [OF s(5) k(3)]
      assign_step_keeps [OF s(6)] assign_step_keeps [OF s(7)] assign_step_keeps [OF s(8)]
    by simp
qed

lemma materials_where_keeps:
  assumes "materials_where q = Inr w" and "k \<notin> {''category'', ''pricePerUnit''}"
  shows "map_of w k = map_of [(''isAvailable'', Eq (JBool True))] k"
proof -
  from assms(1) obtain w1 w2 where
    s: "when_truthy (q ''category'') set_category [(''isAvailable'', Eq (JBool True))] = Inr w1"
       "when_truthy (q ''minPrice'') (price_bound materials_scope ''pricePerUnit'' Gte) w1 = Inr w2"
       "when_truthy (q ''maxPrice'') (price_bound materials_scope ''pricePerUnit'' Lte) w2 = Inr w"
    unfolding materials_where_def by (auto split: sum.splits)
  from assms(2) have k: "k \<noteq> ''category''" "k \<noteq> ''pricePerUnit''" by auto
  show ?thesis
    using category_step_keeps [OF s(1) k(1)] price_step_keeps [OF s(2) k(2)] price_step_keeps [OF s(3) k(2)]
    by simp
qed

lemma matches_field:
  "matches w e \<Longrightarrow> map_of w k = Some c \<Longrightarrow> cond_holds c (field e k)"
  by (auto simp: matches_def list_all_iff dest!: map_of_SomeD)

text \<open>
  C1. Claimed: for every criteria set accepted by input validation, the translation
  to a query inside the listing handlers raises no exception. The code does raise: in
  the vehicles handler the statements for \<^verbatim>\<open>city\<close>, \<^verbatim>\<open>state\<close> and \<^verbatim>\<open>search\<close>
  assign to \<^verbatim>\<open>filter\<close>, which is declared nowhere, and in the materials handler the
  price bounds use \<^verbatim>\<open>Op\<close>, which the module does not import. Evaluated here on
  \<^verbatim>\<open>GET /api/vehicles?search=loader\<close> and \<^verbatim>\<open>GET /api/materials?minPrice=5\<close>: the
  construction throws and the handler answers 500.
\<close>

theorem listing_translation_raises:
  "vehicles_build_query [''search'' \<mapsto> ''loader''] = Inl (ReferenceError ''filter'')
   \<and> vehicles_list sample_store (sample_request\<lparr>query := [''search'' \<mapsto> ''loader'']\<rparr>) =
       Json 500 (JObj [(''success'', JBool False),
                       (''message'', JStr ''Server error while fetching vehicles'')])
   \<and> materials_build_query [''minPrice'' \<mapsto> ''5''] = Inl (ReferenceError ''Op'')
   \<and> materials_list sample_store (sample_request\<lparr>query := [''minPrice'' \<mapsto> ''5'']\<rparr>) =
       Json 500 (JObj [(''success'', JBool False),
                       (''message'', JStr ''Server error while fetching materials'')])"
  by (simp add: vehicles_list_def vehicles_build_query_def vehicles_where_def materials_list_def
      materials_build_query_def materials_where_def price_bound_vehicles price_bound_materials
      set_category_eq when_truthy_Inr when_truthy_Inl assign_filter truthy_def failure_def
      sample_request_def)

text \<open>
  C3. Claimed: when a city or state filter is present, the predicate handed to
  \<^verbatim>\<open>Vehicle.findAndCountAll\<close> carries a case-insensitive partial match on the
  location field. In the code no query is handed over at all: whenever \<^verbatim>\<open>city\<close> or
  \<^verbatim>\<open>state\<close> is present and not empty, the construction throws the ReferenceError of
  \<^verbatim>\<open>filter\<close> and the handler answers 500.
\<close>

theorem location_filter_raises:
  "truthy (query req ''city'') \<or> truthy (query req ''state'') \<Longrightarrow> verrors req = [] \<Longrightarrow>
   vehicles_build_query (query req) = Inl (ReferenceError ''filter'')
   \<and> vehicles_list st req =
       Json 500 (JObj [(''success'', JBool False),
                       (''message'', JStr ''Server error while fetching vehicles'')])"
  by (simp add: vehicles_list_def vehicles_build_query_def vehicles_where_location failure_def)

text \<open>The request \<^verbatim>\<open>GET /api/vehicles?city=Austin\<close> on the sample store.\<close>

theorem location_filter_raises_witness:
  "truthy (query (sample_request\<lparr>query := [''city'' \<mapsto> ''Austin'']\<rparr>) ''city'')
   \<and> verrors (sample_request\<lparr>query := [''city'' \<mapsto> ''Austin'']\<rparr>) = []
   \<and> vehicles_list sample_store (sample_request\<lparr>query := [''city'' \<mapsto> ''Austin'']\<rparr>) =
       Json 500 (JObj [(''success'', JBool False),
                       (''message'', JStr ''Server error while fetching vehicles'')])"
  using location_filter_raises [of "sample_request\<lparr>query := [''city'' \<mapsto> ''Austin'']\<rparr>" sample_store]
  by (simp add: truthy_def sample_request_def)

text \<open>What a listing answered with status 200 is built from.\<close>

lemma insert_row_set: "set (insert_row os a rows) = insert a (set rows)"
  by (induction rows) auto

lemma sort_rows_set: "set (sort_rows os rows) = set rows"
  by (induction rows) (auto simp: sort_rows_def insert_row_set)

lemma findAndCountAll_result:
  assumes "findAndCountAll st tbl fk q = Inr (count, rows)"
  shows "count = length (filter (matches (qwhere q)) (map snd tbl))"
    and "\<forall>r \<in> set rows. \<exists>e \<in> snd ` set tbl. matches (qwhere q) e \<and> r = with_include st fk (qinclude q) e"
proof -
  let ?ms = "filter (matches (qwhere q)) (map snd tbl)"
  from assms have c: "count = length ?ms"
    and r: "rows = map (with_include st fk (qinclude q))
                     (take (nat (qlimit q)) (drop (nat (qoffset q)) (sort_rows (qorder q) ?ms)))"
    by (auto simp: findAndCountAll_def Let_def split: if_splits)
  show "count = length ?ms" by (rule c)
  show "\<forall>r \<in> set rows. \<exists>e \<in> snd ` set tbl. matches (qwhere q) e \<and> r = with_include st fk (qinclude q) e"
  proof
    fix x assume "x \<in> set rows"
    with r obtain e where e: "e \<in> set (take (nat (qlimit q)) (drop (nat (qoffset q)) (sort_rows (qorder q) ?ms)))"
      and x: "x = with_include st fk (qinclude q) e" by auto
    from e have "e \<in> set (sort_rows (qorder q) ?ms)"
      by (blast dest: in_set_takeD in_set_dropD)
    then have "e \<in> set ?ms" by (simp only: sort_rows_set)
    then have "e \<in> snd ` set tbl" and "matches (qwhere q) e" by auto
    with x show "\<exists>e \<in> snd ` set tbl. matches (qwhere q) e \<and> x = with_include st fk (qinclude q) e"
      by blast
  qed
qed

lemma vehicles_list_200:
  assumes "vehicles_list st req = Json 200 b"
  shows "\<exists>qs count rows. vehicles_build_query (query req) = Inr qs
           \<and> findAndCountAll st (vehicles_tbl st) ''ownerId'' qs = Inr (count, rows)
           \<and> b = listing rows (pagination (page_of (query req)) (limit_of (query req)) count)"
  using assms
  by (auto simp: vehicles_list_def failure_def validation_failed_def split: if_splits sum.splits)

lemma materials_list_200:
  assumes "materials_list st req = Json 200 b"
  shows "\<exists>qs count rows. materials_build_query (query req) = Inr qs
           \<and> findAndCountAll st (materials_tbl st) ''supplierId'' qs = Inr (count, rows)
           \<and> b = listing rows (pagination (page_of (query req)) (limit_of (query req)) count)"
  using assms
  by (auto simp: materials_list_def failure_def validation_failed_def split: if_splits sum.splits)

lemma listing_body:
  "listing rows (pagination page limit count) =
     JObj [(''success'', JBool True), (''data'', JArr rows),
           (''pagination'',
            JObj [(''page'', JNum (of_int page)), (''limit'', JNum (of_int limit)),
                  (''total'', JNum (of_nat count)), (''pages'', JNum (of_int (pages_of count limit)))])]"
  by (simp add: listing_def pagination_def)

text \<open>
  C6. Whatever parameters the caller supplies, a predicate that a listing handler
  builds contains the availability constraint unchanged (\<^verbatim>\<open>status = 'active'\<close> for
  vehicles, \<^verbatim>\<open>isAvailable = true\<close> for materials), and every record that satisfies
  the predicate satisfies the constraint. A listing answered with status 200 is built
  from the result of the storage call on that predicate: its \<^verbatim>\<open>total\<close> is the number
  of records that satisfy the predicate, and each of its rows is a record that
  satisfies the predicate, hence the constraint, with its partner attached.
\<close>

theorem availability_constraint_kept:
  "(vehicles_build_query q = Inr qs \<longrightarrow>
      map_of (qwhere qs) ''status'' = Some (Eq (JStr ''active''))
      \<and> (\<forall>e. matches (qwhere qs) e \<longrightarrow> field e ''status'' = JStr ''active''))
   \<and> (materials_build_query q = Inr qs \<longrightarrow>
      map_of (qwhere qs) ''isAvailable'' = Some (Eq (JBool True))
      \<and> (\<forall>e. matches (qwhere qs) e \<longrightarrow> field e ''isAvailable'' = JBool True))
   \<and> (vehicles_list st req = Json 200 b \<longrightarrow>
      (\<exists>qv count rows p l n.
         vehicles_build_query (query req) = Inr qv
         \<and> map_of (qwhere qv) ''status'' = Some (Eq (JStr ''active''))
         \<and> findAndCountAll st (vehicles_tbl st) ''ownerId'' qv = Inr (count, rows)
         \<and> count = length (filter (matches (qwhere qv)) (map snd (vehicles_tbl st)))
         \<and> (\<forall>r \<in> set rows. \<exists>e \<in> snd ` set (vehicles_tbl st).
               field e ''status'' = JStr ''active'' \<and> matches (qwhere qv) e
               \<and> r = with_include st ''ownerId'' (qinclude qv) e)
         \<and> b = JObj [(''success'', JBool True), (''data'', JArr rows),
                     (''pagination'',
                      JObj [(''page'', p), (''limit'', l),
                            (''total'', JNum (of_nat count)), (''pages'', n)])]))
   \<and> (materials_list st req = Json 200 b \<longrightarrow>
      (\<exists>qm count rows p l n.
         materials_build_query (query req) = Inr qm
         \<and> map_of (qwhere qm) ''isAvailable'' = Some (Eq (JBool True))
         \<and> findAndCountAll st (materials_tbl st) ''supplierId'' qm = Inr (count, rows)
         \<and> count = length (filter (matches (qwhere qm)) (map snd (materials_tbl st)))
         \<and> (\<forall>r \<in> set rows. \<exists>e \<in> snd ` set (materials_tbl st).
               field e ''isAvailable'' = JBool True \<and> matches (qwhere qm) e
               \<and> r = with_include st ''supplierId'' (qinclude qm) e)
         \<and> b = JObj [(''success'', JBool True), (''data'', JArr rows),
                     (''pagination'',
                      JObj [(''page'', p), (''limit'', l),
                            (''total'', JNum (of_nat count)), (''pages'', n)])]))"
proof -
  have v: "map_of (qwhere x) ''status'' = Some (Eq (JStr ''active''))"
    if "vehicles_build_query y = Inr x" for x y
  proof -
    from that have "vehicles_where y = Inr (qwhere x)"
      by (auto simp: vehicles_build_query_def split: sum.splits)
    from vehicles_where_keeps [OF this, of "''status''"] show ?thesis by simp
  qed
  have m: "map_of (qwhere x) ''isAvailable'' = Some (Eq (JBool True))"
    if "materials_build_query y = Inr x" for x y
  proof -
    from that have "materials_where y = Inr (qwhere x)"
      by (auto simp: materials_build_query_def split: sum.splits)
    from materials_where_keeps [OF this, of "''isAvailable''"] show ?thesis by simp
  qed
  have va: "field e ''status'' = JStr ''active''"
    if "vehicles_build_query y = Inr x" and "matches (qwhere x) e" for x y e
    using matches_field [OF that(2) v [OF that(1)]] by simp
  have ma: "field e ''isAvailable'' = JBool True"
    if "materials_build_query y = Inr x" and "matches (qwhere x) e" for x y e
    using matches_field [OF that(2) m [OF that(1)]] by simp
  have c3: "\<exists>qv count rows p l n.
         vehicles_build_query (query req) = Inr qv
         \<and> map_of (qwhere qv) ''status'' = Some (Eq (JStr ''active''))
         \<and> findAndCountAll st (vehicles_tbl st) ''ownerId'' qv = Inr (count, rows)
         \<and> count = length (filter (matches (qwhere qv)) (map snd (vehicles_tbl st)))
         \<and> (\<forall>r \<in> set rows. \<exists>e \<in> snd ` set (vehicles_tbl st).
               field e ''status'' = JStr ''active'' \<and> matches (qwhere qv) e
               \<and> r = with_include st ''ownerId'' (qinclude qv) e)
         \<and> b = JObj [(''success'', JBool True), (''data'', JArr rows),
                     (''pagination'',
                      JObj [(''page'', p), (''limit'', l),
                            (''total'', JNum (of_nat count)), (''pages'', n)])]"
    if h: "vehicles_list st req = Json 200 b"
  proof -
    from vehicles_list_200 [OF h] obtain qv count rows where
      q: "vehicles_build_query (query req) = Inr qv"
      and f: "findAndCountAll st (vehicles_tbl st) ''ownerId'' qv = Inr (count, rows)"
      and b: "b = listing rows (pagination (page_of (query req)) (limit_of (query req)) count)"
      by blast
    from findAndCountAll_result(2) [OF f] va [OF q]
    have "\<forall>r \<in> set rows. \<exists>e \<in> snd ` set (vehicles_tbl st).
               field e ''status'' = JStr ''active'' \<and> matches (qwhere qv) e
               \<and> r = with_include st ''ownerId'' (qinclude qv) e"
      by blast
    with q v [OF q] f findAndCountAll_result(1) [OF f] b [unfolded listing_body]
    show ?thesis by blast
  qed
  have c4: "\<exists>qm count rows p l n.
         materials_build_query (query req) = Inr qm
         \<and> map_of (qwhere qm) ''isAvailable'' = Some (Eq (JBool True))
         \<and> findAndCountAll st (materials_tbl st) ''supplierId'' qm = Inr (count, rows)
         \<and> count = length (filter (matches (qwhere qm)) (map snd (materials_tbl st)))
         \<and> (\<forall>r \<in> set rows. \<exists>e \<in> snd ` set (materials_tbl st).
               field e ''isAvailable'' = JBool True \<and> matches (qwhere qm) e
               \<and> r = with_include st ''supplierId'' (qinclude qm) e)
         \<and> b = JObj [(''success'', JBool True), (''data'', JArr rows),
                     (''pagination'',
                      JObj [(''page'', p), (''limit'', l),
                            (''total'', JNum (of_nat count)), (''pages'', n)])]"
    if h: "materials_list st req = Json 200 b"
  proof -
    from materials_list_200 [OF h] obtain qm count rows where
      q: "materials_build_query (query req) = Inr qm"
      and f: "findAndCountAll st (materials_tbl st) ''supplierId'' qm = Inr (count, rows)"
      and b: "b = listing rows (pagination (page_of (query req)) (limit_of (query req)) count)"
      by blast
    from findAndCountAll_result(2) [OF f] ma [OF q]
    have "\<forall>r \<in> set rows. \<exists>e \<in> snd ` set (materials_tbl st).
               field e ''isAvailable'' = JBool True \<and> matches (qwhere qm) e
               \<and> r = with_include st ''supplierId'' (qinclude qm) e"
      by blast
    with q m [OF q] f findAndCountAll_result(1) [OF f] b [unfolded listing_body]
    show ?thesis by blast
  qed
  show ?thesis
  proof (intro conjI impI allI)
    show "map_of (qwhere qs) ''status'' = Some (Eq (JStr ''active''))" if "vehicles_build_query q = Inr qs"
      using v [OF that] .
    show "field e ''status'' = JStr ''active''" if "vehicles_build_query q = Inr qs" "matches (qwhere qs) e" for e
      using va [OF that] .
    show "map_of (qwhere qs) ''isAvailable'' = Some (Eq (JBool True))" if "materials_build_query q = Inr qs"
      using m [OF that] .
    show "field e ''isAvailable'' = JBool True" if "materials_build_query q = Inr qs" "matches (qwhere qs) e" for e
      using ma [OF that] .
  qed (use c3 c4 in blast)+
qed

text \<open>
  A vehicles request that names \<^verbatim>\<open>status=inactive\<close> and a materials request that
  names \<^verbatim>\<open>isAvailable=false\<close>, on the sample store: the predicate is the constraint
  alone, and the inactive crane and the unavailable steel are not listed.
\<close>

theorem availability_constraint_kept_witness:
  "vehicles_build_query [''status'' \<mapsto> ''inactive'']
     = Inr \<lparr> qwhere = [(''status'', Eq (JStr ''active''))],
             qinclude = (''owner'', [''businessName'', ''rating'', ''contact'']),
             qorder = [(''featured'', DESC), (''rating'', DESC)], qoffset = 0, qlimit = 10 \<rparr>
   \<and> vehicles_list sample_store (sample_request\<lparr>query := [''status'' \<mapsto> ''inactive'']\<rparr>)
     = Json 200 (JObj [(''success'', JBool True),
         (''data'', JArr [JObj [(''id'', JNum 1), (''name'', JStr ''CAT 320''),
            (''category'', JStr ''excavator''), (''status'', JStr ''active''),
            (''pricePerHour'', JNum 120), (''ownerId'', JNum 7),
            (''owner'', JObj [(''businessName'', JStr ''Acme Rentals''), (''rating'', JNum 5)])]]),
         (''pagination'', JObj [(''page'', JNum 1), (''limit'', JNum 10),
                                (''total'', JNum 1), (''pages'', JNum 1)])])
   \<and> materials_build_query [''isAvailable'' \<mapsto> ''false'']
     = Inr \<lparr> qwhere = [(''isAvailable'', Eq (JBool True))],
             qinclude = (''supplier'', [''businessName'', ''rating'']),
             qorder = [(''featured'', DESC), (''rating'', DESC)], qoffset = 0, qlimit = 10 \<rparr>
   \<and> materials_list sample_store (sample_request\<lparr>query := [''isAvailable'' \<mapsto> ''false'']\<rparr>)
     = Json 200 (JObj [(''success'', JBool True),
         (''data'', JArr [JObj [(''id'', JNum 1), (''name'', JStr ''River sand''),
            (''category'', JStr ''sand''), (''isAvailable'', JBool True),
            (''pricePerUnit'', JNum 30), (''supplierId'', JNum 7),
            (''supplier'', JObj [(''businessName'', JStr ''Acme Rentals''), (''rating'', JNum 5)])]]),
         (''pagination'', JObj [(''page'', JNum 1), (''limit'', JNum 10),
                                (''total'', JNum 1), (''pages'', JNum 1)])])
   \<and> length (filter (matches [(''status'', Eq (JStr ''active''))]) (map snd (vehicles_tbl sample_store))) = 1
   \<and> length (filter (matches [(''isAvailable'', Eq (JBool True))]) (map snd (materials_tbl sample_store))) = 1"
proof -
  let ?q = "[''status'' \<mapsto> ''inactive'']"
  let ?qs = "\<lparr> qwhere = [(''status'', Eq (JStr ''active''))],
             qinclude = (''owner'', [''businessName'', ''rating'', ''contact'']),
             qorder = [(''featured'', DESC), (''rating'', DESC)], qoffset = 0, qlimit = 10 \<rparr>"
  let ?vb = "JObj [(''success'', JBool True),
         (''data'', JArr [JObj [(''id'', JNum 1), (''name'', JStr ''CAT 320''),
            (''category'', JStr ''excavator''), (''status'', JStr ''active''),
            (''pricePerHour'', JNum 120), (''ownerId'', JNum 7),
            (''owner'', JObj [(''businessName'', JStr ''Acme Rentals''), (''rating'', JNum 5)])]]),
         (''pagination'', JObj [(''page'', JNum 1), (''limit'', JNum 10),
                                (''total'', JNum 1), (''pages'', JNum 1)])]"
  let ?p = "[''isAvailable'' \<mapsto> ''false'']"
  let ?ps = "\<lparr> qwhere = [(''isAvailable'', Eq (JBool True))],
             qinclude = (''supplier'', [''businessName'', ''rating'']),
             qorder = [(''featured'', DESC), (''rating'', DESC)], qoffset = 0, qlimit = 10 \<rparr>"
  let ?mb = "JObj [(''success'', JBool True),
         (''data'', JArr [JObj [(''id'', JNum 1), (''name'', JStr ''River sand''),
            (''category'', JStr ''sand''), (''isAvailable'', JBool True),
            (''pricePerUnit'', JNum 30), (''supplierId'', JNum 7),
            (''supplier'', JObj [(''businessName'', JStr ''Acme Rentals''), (''rating'', JNum 5)])]]),
         (''pagination'', JObj [(''page'', JNum 1), (''limit'', JNum 10),
                                (''total'', JNum 1), (''pages'', JNum 1)])]"
  have v: "vehicles_build_query ?q = Inr ?qs" by code_simp
  have m: "materials_build_query ?p = Inr ?ps" by code_simp
  have lv: "vehicles_list sample_store (sample_request\<lparr>query := ?q\<rparr>) = Json 200 ?vb" by code_simp
  have lm: "materials_list sample_store (sample_request\<lparr>query := ?p\<rparr>) = Json 200 ?mb" by code_simp
  have qv: "query (sample_request\<lparr>query := ?q\<rparr>) = ?q" and qm: "query (sample_request\<lparr>query := ?p\<rparr>) = ?p"
    by simp_all
  from availability_constraint_kept
         [where q = ?q and qs = ?qs and st = sample_store
            and req = "sample_request\<lparr>query := ?q\<rparr>" and b = ?vb]
       lv v
  have cv: "length (filter (matches [(''status'', Eq (JStr ''active''))]) (map snd (vehicles_tbl sample_store))) = 1"
    unfolding qv by auto
  from availability_constraint_kept
         [where q = ?p and qs = ?ps and st = sample_store
            and req = "sample_request\<lparr>query := ?p\<rparr>" and b = ?mb]
       lm m
  have cm: "length (filter (matches [(''isAvailable'', Eq (JBool True))]) (map snd (materials_tbl sample_store))) = 1"
    unfolding qm by auto
  from v m lv lm cv cm show ?thesis by simp
qed

section \<open>Properties of pagination\<close>














section \<open>Properties of ownership\<close>

lemma strict_eq_imp_eq: "strict_eq a b \<Longrightarrow> a = b"
  by (cases a) simp_all

text \<open>
  C5, as claimed, fails: \<^verbatim>\<open>PUT /api/materials/1\<close> with the body
  \<^verbatim>\<open>{"pricePerUnit": -5}\<close>, sent by partner 8 for a material of supplier 7, is
  answered 400 and not 403, because the handler checks the validation result before
  it looks the record up.
\<close>

theorem invalid_payload_answered_before_ownership:
  "map_option (\<lambda>m. field m ''supplierId'')
       (map_of (materials_tbl sample_store) (params_id negative_price_request)) = Some (JNum 7)
   \<and> partnerId (user negative_price_request) = JNum 8
   \<and> status (fst (materials_update sample_store negative_price_request)) = 400
   \<and> status (fst (materials_update sample_store negative_price_request)) \<noteq> 403"
  by (simp add: materials_update_def negative_price_request_def sample_request_def sample_store_def
      field_def)

text \<open>
  C5, amended. When the lookup finds the target and its owner (\<^verbatim>\<open>ownerId\<close> for a
  vehicle, \<^verbatim>\<open>supplierId\<close> for a material) differs from the principal's
  \<^verbatim>\<open>partnerId\<close>, the store is left unchanged, whatever the payload, and the answer
  is 403 for \<^verbatim>\<open>PUT\<close> and \<^verbatim>\<open>DELETE\<close> on vehicles, for \<^verbatim>\<open>DELETE\<close> on materials
  and for \<^verbatim>\<open>PUT\<close> on materials with a payload that passes validation. A
  \<^verbatim>\<open>PUT\<close> on materials with a payload that fails validation is answered 400.
\<close>

theorem ownership_forbidden:
  assumes "online st"
  shows "(map_of (vehicles_tbl st) (params_id req) = Some v
            \<and> field v ''ownerId'' \<noteq> partnerId (user req) \<longrightarrow>
            vehicles_update st req =
              (Json 403 (JObj [(''success'', JBool False),
                               (''message'', JStr ''Not authorized to update this vehicle'')]), st)
            \<and> vehicles_delete st req =
              (Json 403 (JObj [(''success'', JBool False),
                               (''message'', JStr ''Not authorized to delete this vehicle'')]), st))
       \<and> (map_of (materials_tbl st) (params_id req) = Some m
            \<and> field m ''supplierId'' \<noteq> partnerId (user req) \<longrightarrow>
            materials_delete st req =
              (Json 403 (JObj [(''success'', JBool False),
                               (''message'', JStr ''Not authorized to delete this material'')]), st)
            \<and> (verrors req = [] \<longrightarrow>
                 materials_update st req =
                   (Json 403 (JObj [(''success'', JBool False),
                                    (''message'', JStr ''Not authorized to update this material'')]), st))
            \<and> (verrors req \<noteq> [] \<longrightarrow>
                 materials_update st req =
                   (Json 400 (JObj [(''success'', JBool False), (''message'', JStr ''Validation failed''),
                                    (''errors'', JArr (verrors req))]), st)))"
  using assms
  by (auto simp: vehicles_update_def vehicles_delete_def materials_update_def materials_delete_def
      findByPk_def failure_def validation_failed_def dest: strict_eq_imp_eq)

text \<open>
  Partner 8 on vehicle 1 and material 1 of the sample store, which belong to partner
  7, with an empty payload and with the invalid one.
\<close>

theorem ownership_forbidden_witness:
  "online sample_store
   \<and> vehicles_update sample_store sample_request =
        (Json 403 (JObj [(''success'', JBool False),
                         (''message'', JStr ''Not authorized to update this vehicle'')]), sample_store)
   \<and> vehicles_delete sample_store sample_request =
        (Json 403 (JObj [(''success'', JBool False),
                         (''message'', JStr ''Not authorized to delete this vehicle'')]), sample_store)
   \<and> materials_delete sample_store sample_request =
        (Json 403 (JObj [(''success'', JBool False),
                         (''message'', JStr ''Not authorized to delete this material'')]), sample_store)
   \<and> materials_update sample_store sample_request =
        (Json 403 (JObj [(''success'', JBool False),
                         (''message'', JStr ''Not authorized to update this material'')]), sample_store)
   \<and> materials_update sample_store negative_price_request =
        (Json 400 (JObj [(''success'', JBool False), (''message'', JStr ''Validation failed''),
                         (''errors'', JArr (verrors negative_price_request))]), sample_store)"
proof -
  let ?v = "[(''id'', JNum 1), (''name'', JStr ''CAT 320''), (''category'', JStr ''excavator''),
             (''status'', JStr ''active''), (''pricePerHour'', JNum 120), (''ownerId'', JNum 7)]"
  let ?m = "[(''id'', JNum 1), (''name'', JStr ''River sand''), (''category'', JStr ''sand''),
             (''isAvailable'', JBool True), (''pricePerUnit'', JNum 30), (''supplierId'', JNum 7)]"
  have o: "online sample_store" by (simp add: sample_store_def)
  have v: "map_of (vehicles_tbl sample_store) (params_id sample_request) = Some ?v"
    by (simp add: sample_store_def sample_request_def)
  have m: "map_of (materials_tbl sample_store) (params_id sample_request) = Some ?m"
    by (simp add: sample_store_def sample_request_def)
  have m': "map_of (materials_tbl sample_store) (params_id negative_price_request) = Some ?m"
    by (simp add: sample_store_def sample_request_def negative_price_request_def)
  have d: "field ?v ''ownerId'' \<noteq> partnerId (user sample_request)"
    "field ?m ''supplierId'' \<noteq> partnerId (user sample_request)"
    "field ?m ''supplierId'' \<noteq> partnerId (user negative_price_request)"
    by (simp_all add: field_def sample_request_def negative_price_request_def)
  have e: "verrors sample_request = []" "verrors negative_price_request \<noteq> []"
    by (simp_all add: sample_request_def negative_price_request_def)
  from ownership_forbidden [where st = sample_store and req = sample_request and v = ?v and m = ?m, OF o]
    ownership_forbidden [where st = sample_store and req = negative_price_request and v = ?v and m = ?m, OF o]
    o v m m' d e
  show ?thesis by blast
qed

text \<open>
  C8. A \<^verbatim>\<open>POST\<close> is answered 201 exactly when validation found nothing and the
  persistence layer answers; the record it then stores has the principal's
  \<^verbatim>\<open>partnerId\<close> as its owner (\<^verbatim>\<open>ownerId\<close> for a vehicle, \<^verbatim>\<open>supplierId\<close> for a
  material), whatever owner the body names.
\<close>

theorem created_owner_is_principal:
  "(status (fst (vehicles_create st req)) = 201 \<longleftrightarrow> verrors req = [] \<and> online st)
   \<and> (status (fst (vehicles_create st req)) = 201 \<longrightarrow>
        (\<exists>e. vehicles_tbl (snd (vehicles_create st req)) = vehicles_tbl st @ [(next_id st, e)]
             \<and> map_of e ''ownerId'' = Some (partnerId (user req))))
   \<and> (status (fst (materials_create st req)) = 201 \<longleftrightarrow> verrors req = [] \<and> online st)
   \<and> (status (fst (materials_create st req)) = 201 \<longrightarrow>
        (\<exists>e. materials_tbl (snd (materials_create st req)) = materials_tbl st @ [(next_id st, e)]
             \<and> map_of e ''supplierId'' = Some (partnerId (user req))))"
  by (simp add: vehicles_create_def materials_create_def create_vehicle_def create_material_def
      new_row_def update_conv' Let_def)

text \<open>Partner 8 posts bodies that name partner 7 as the owner; the stored owner is 8.\<close>

theorem created_owner_is_principal_witness:
  "status (fst (vehicles_create sample_store
       (sample_request\<lparr>body := [(''name'', JStr ''Loader''), (''ownerId'', JNum 7)]\<rparr>))) = 201
   \<and> vehicles_tbl (snd (vehicles_create sample_store
       (sample_request\<lparr>body := [(''name'', JStr ''Loader''), (''ownerId'', JNum 7)]\<rparr>)))
       = vehicles_tbl sample_store
         @ [(3, [(''name'', JStr ''Loader''), (''ownerId'', JNum 8), (''id'', JNum 3)])]
   \<and> status (fst (materials_create sample_store
       (sample_request\<lparr>body := [(''supplierId'', JNum 7), (''name'', JStr ''Gravel'')]\<rparr>))) = 201
   \<and> materials_tbl (snd (materials_create sample_store
       (sample_request\<lparr>body := [(''supplierId'', JNum 7), (''name'', JStr ''Gravel'')]\<rparr>)))
       = materials_tbl sample_store
         @ [(3, [(''supplierId'', JNum 8), (''name'', JStr ''Gravel''), (''id'', JNum 3)])]"
proof -
  let ?r = "sample_request\<lparr>body := [(''name'', JStr ''Loader''), (''ownerId'', JNum 7)]\<rparr>"
  let ?s = "sample_request\<lparr>body := [(''supplierId'', JNum 7), (''name'', JStr ''Gravel'')]\<rparr>"
  have h: "verrors ?r = [] \<and> online sample_store" "verrors ?s = [] \<and> online sample_store"
    by (simp_all add: sample_request_def sample_store_def)
  have v: "vehicles_tbl (snd (vehicles_create sample_store ?r))
       = vehicles_tbl sample_store
         @ [(3, [(''name'', JStr ''Loader''), (''ownerId'', JNum 8), (''id'', JNum 3)])]"
    by (simp add: vehicles_create_def create_vehicle_def new_row_def sample_request_def sample_store_def)
  have m: "materials_tbl (snd (materials_create sample_store ?s))
       = materials_tbl sample_store
         @ [(3, [(''supplierId'', JNum 8), (''name'', JStr ''Gravel''), (''id'', JNum 3)])]"
    by (simp add: materials_create_def create_material_def new_row_def sample_request_def sample_store_def)
  from created_owner_is_principal [of sample_store ?r] created_owner_is_principal [of sample_store ?s]
    h v m
  show ?thesis by blast
qed

section \<open>Properties of the category lists\<close>

lemma field_single: "field [(k, v)] k = v"
  by (simp add: field_def)

lemma categories_projection:
  "(\<lambda>v. field v ''category'') \<circ> (\<lambda>c. [(''category'', c)]) = id"
  by (simp add: fun_eq_iff field_single)

text \<open>
  C9. For every content of the store, \<^verbatim>\<open>GET /{T}/categories/list\<close> returns each
  category value found among all records of the type exactly once; no availability
  or status filter is applied, so unavailable and inactive records contribute theirs.
\<close>

theorem categories_all_records:
  assumes "online st"
  shows "(\<exists>cs. vehicles_categories st req =
                  Json 200 (JObj [(''success'', JBool True), (''data'', JArr cs)])
              \<and> distinct cs
              \<and> set cs = (\<lambda>e. field e ''category'') ` snd ` set (vehicles_tbl st))
       \<and> (\<exists>cs. materials_categories st req =
                  Json 200 (JObj [(''success'', JBool True), (''data'', JArr cs)])
              \<and> distinct cs
              \<and> set cs = (\<lambda>e. field e ''category'') ` snd ` set (materials_tbl st))"
  using assms
  by (simp add: vehicles_categories_def materials_categories_def findAll_group_category_def
      categories_projection field_single success_data_def image_image)

text \<open>
  The sample store: the crane is inactive and the steel is unavailable, and both
  categories are listed.
\<close>

theorem categories_all_records_witness:
  "online sample_store
   \<and> vehicles_categories sample_store sample_request =
       Json 200 (JObj [(''success'', JBool True), (''data'', JArr [JStr ''excavator'', JStr ''crane''])])
   \<and> materials_categories sample_store sample_request =
       Json 200 (JObj [(''success'', JBool True), (''data'', JArr [JStr ''sand'', JStr ''steel''])])
   \<and> (\<lambda>e. field e ''category'') ` snd ` set (vehicles_tbl sample_store)
       = {JStr ''excavator'', JStr ''crane''}"
proof -
  have o: "online sample_store" by (simp add: sample_store_def)
  have v: "vehicles_categories sample_store sample_request =
       Json 200 (JObj [(''success'', JBool True), (''data'', JArr [JStr ''excavator'', JStr ''crane''])])"
    by code_simp
  have m: "materials_categories sample_store sample_request =
       Json 200 (JObj [(''success'', JBool True), (''data'', JArr [JStr ''sand'', JStr ''steel''])])"
    by code_simp
  from categories_all_records [OF o, of sample_request] v m o show ?thesis by auto
qed

section \<open>Properties of the response shapes\<close>

lemmas shape_defs = catalog_envelope_def envelope_def users_shape_def has_success_def has_message_def
  has_errors_def obj_field_def failure_def validation_failed_def success_data_def success_message_def
  success_message_data_def success_user_def listing_def

lemma vehicles_shapes:
  "catalog_envelope (vehicles_list st req)"
  "catalog_envelope (vehicles_get st req)"
  "catalog_envelope (fst (vehicles_create st req))"
  "catalog_envelope (fst (vehicles_update st req))"
  "catalog_envelope (fst (vehicles_delete st req))"
  "catalog_envelope (fst (vehicles_availability st req))"
  "catalog_envelope (vehicles_categories st req)"
  by (simp_all add: vehicles_list_def vehicles_get_def vehicles_create_def vehicles_update_def
      vehicles_delete_def vehicles_availability_def vehicles_categories_def shape_defs Let_def
      split: sum.splits option.splits prod.splits)

lemma materials_shapes:
  "catalog_envelope (materials_list st req)"
  "catalog_envelope (materials_get st req)"
  "catalog_envelope (fst (materials_create st req))"
  "catalog_envelope (fst (materials_update st req))"
  "catalog_envelope (fst (materials_delete st req))"
  "catalog_envelope (materials_categories st req)"
  by (simp_all add: materials_list_def materials_get_def materials_create_def materials_update_def
      materials_delete_def materials_categories_def shape_defs Let_def
      split: sum.splits option.splits prod.splits)

lemma users_shapes:
  "users_shape (users_get_profile st req)"
  "verrors req \<noteq> [] \<Longrightarrow>
     fst (users_put_profile st req) = Json 400 (JObj [(''errors'', JArr (verrors req))])"
  "verrors req = [] \<Longrightarrow> users_shape (fst (users_put_profile st req))"
  "users_shape (users_orders st req)"
  "users_shape (fst (users_delete_account st req))"
  by (simp_all add: users_get_profile_def users_put_profile_def users_orders_def
      users_delete_account_def shape_defs split: sum.splits option.splits prod.splits)

text \<open>
  C4, as claimed, fails in the users module: \<^verbatim>\<open>GET /api/users/orders\<close> is answered
  with the plain text \<^verbatim>\<open>Server Error\<close>, which is no JSON object, and a
  \<^verbatim>\<open>PUT /api/users/profile\<close> that fails validation is answered with
  \<^verbatim>\<open>{errors: [...]}\<close>, which has neither \<^verbatim>\<open>success\<close> nor \<^verbatim>\<open>message\<close>.
\<close>

theorem users_responses_without_envelope:
  "users_orders sample_store sample_request = Send 500 ''Server Error''
   \<and> \<not> has_success (users_orders sample_store sample_request)
   \<and> \<not> has_message (users_orders sample_store sample_request)
   \<and> fst (users_put_profile sample_store negative_price_request) =
        Json 400 (JObj [(''errors'',
                         JArr [JObj [(''path'', JStr ''pricePerUnit''), (''msg'', JStr ''Invalid value'')]])])
   \<and> \<not> has_success (fst (users_put_profile sample_store negative_price_request))
   \<and> \<not> has_message (fst (users_put_profile sample_store negative_price_request))"
  by (simp add: users_orders_def orders_include_def resolve_def users_scope_def js_globals_def
      users_put_profile_def negative_price_request_def sample_request_def has_success_def
      has_message_def obj_field_def)

text \<open>
  C4, amended. Every response of the vehicles and materials endpoints is a JSON
  object with a boolean \<^verbatim>\<open>success\<close>; with status 400 or above it carries a
  \<^verbatim>\<open>message\<close> string, and with status 400 an \<^verbatim>\<open>errors\<close> array. A response of the
  users endpoints is the plain text \<^verbatim>\<open>Server Error\<close> with status 500, or the
  validation failure of \<^verbatim>\<open>PUT /profile\<close>, which is \<^verbatim>\<open>{errors: [...]}\<close> with status
  400, or a JSON object with a boolean \<^verbatim>\<open>success\<close> that carries a \<^verbatim>\<open>message\<close>
  string when its status is 400 or above.
\<close>

theorem response_shapes:
  "catalog_envelope (vehicles_list st req)
   \<and> catalog_envelope (vehicles_get st req)
   \<and> catalog_envelope (fst (vehicles_create st req))
   \<and> catalog_envelope (fst (vehicles_update st req))
   \<and> catalog_envelope (fst (vehicles_delete st req))
   \<and> catalog_envelope (fst (vehicles_availability st req))
   \<and> catalog_envelope (vehicles_categories st req)
   \<and> catalog_envelope (materials_list st req)
   \<and> catalog_envelope (materials_get st req)
   \<and> catalog_envelope (fst (materials_create st req))
   \<and> catalog_envelope (fst (materials_update st req))
   \<and> catalog_envelope (fst (materials_delete st req))
   \<and> catalog_envelope (materials_categories st req)
   \<and> users_shape (users_get_profile st req)
   \<and> (if verrors req \<noteq> []
       then fst (users_put_profile st req) = Json 400 (JObj [(''errors'', JArr (verrors req))])
       else users_shape (fst (users_put_profile st req)))
   \<and> users_shape (users_orders st req)
   \<and> users_shape (fst (users_delete_account st req))"
  by (simp add: vehicles_shapes materials_shapes users_shapes)

text \<open>
  A materials update answered 400 carries all three fields; the profile update is
  answered in its own shape when validation fails and with an envelope when it
  passes.
\<close>

theorem response_shapes_witness:
  "status (fst (materials_update sample_store negative_price_request)) = 400
   \<and> has_success (fst (materials_update sample_store negative_price_request))
   \<and> has_message (fst (materials_update sample_store negative_price_request))
   \<and> has_errors (fst (materials_update sample_store negative_price_request))
   \<and> verrors negative_price_request \<noteq> []
   \<and> fst (users_put_profile sample_store negative_price_request) =
        Json 400 (JObj [(''errors'', JArr (verrors negative_price_request))])
   \<and> verrors sample_request = []
   \<and> users_shape (fst (users_put_profile sample_store sample_request))"
proof -
  have s: "status (fst (materials_update sample_store negative_price_request)) = 400"
    by (simp add: materials_update_def negative_price_request_def sample_request_def)
  have e: "verrors negative_price_request \<noteq> []" "verrors sample_request = []"
    by (simp_all add: negative_price_request_def sample_request_def)
  from response_shapes [of sample_store negative_price_request]
    response_shapes [of sample_store sample_request] s e
  show ?thesis by (simp add: catalog_envelope_def envelope_def)
qed

section \<open>The order history of the users module\<close>

text \<open>
  C10. For every authenticated request, \<^verbatim>\<open>GET /users/orders\<close> answers with status
  500 and the plain-text body \<^verbatim>\<open>Server Error\<close>: the include list of the handler's
  query names \<^verbatim>\<open>Material\<close>, which the users module does not bind, so evaluating it
  throws a ReferenceError before any order is read.
\<close>

theorem users_orders_server_error:
  "orders_include = Inl (ReferenceError ''Material'')
   \<and> users_orders st req = Send 500 ''Server Error''"
  by (simp add: users_orders_def orders_include_def resolve_def users_scope_def js_globals_def)

end
